theory Spec2Isabelle
  imports Complex_Main
begin

section \<open>The overlay registry: ModalPanel and ModalService\<close>

subsection \<open>The JavaScript Map that holds the overlay records\<close>

text \<open>
  \<^verbatim>\<open>ModalPanelState.components\<close> is a JavaScript \<^verbatim>\<open>Map<string, ModalPanelChild>\<close>.
  Such a map iterates in the order in which its keys were first inserted, and
  \<^verbatim>\<open>set\<close> on a key that is already present replaces the value where it stands. It is
  modelled as an association list in iteration order, with the three operations the
  source uses written out.
\<close>

fun map_set :: "('k \<times> 'v) list \<Rightarrow> 'k \<Rightarrow> 'v \<Rightarrow> ('k \<times> 'v) list" where
  "map_set [] k v = [(k, v)]"
| "map_set ((k', v') # m) k v =
     (if k' = k then (k, v) # m else (k', v') # map_set m k v)"

text \<open>
  \<^verbatim>\<open>delete\<close> receives whatever value the caller passes. The callers of \<^verbatim>\<open>hide\<close> store
  the result of \<^verbatim>\<open>ModalService.show\<close>, which is \<^verbatim>\<open>undefined\<close> when no panel is mounted, so
  the identifier is a \<open>string option\<close> with \<open>None\<close> for \<^verbatim>\<open>undefined\<close>. Every key of the
  map is a string: \<^verbatim>\<open>undefined\<close> matches none of them.
\<close>

definition map_delete :: "(string \<times> 'v) list \<Rightarrow> string option \<Rightarrow> (string \<times> 'v) list" where
  "map_delete m identifier = filter (\<lambda>(k, v). Some k \<noteq> identifier) m"

definition map_keys :: "('k \<times> 'v) list \<Rightarrow> 'k list" where
  "map_keys m = map fst m"

definition map_values :: "('k \<times> 'v) list \<Rightarrow> 'v list" where
  "map_values m = map snd m"

subsection \<open>ModalPanel\<close>

record 'cb ModalPresentingConfig =
  allowBackdrop :: bool
  onBackdropPress :: 'cb

record ('e, 'cb) ModalPanelChild = "'cb ModalPresentingConfig" +
  element :: 'e

record ('e, 'cb) ModalPanelState =
  components :: "(string \<times> ('e, 'cb) ModalPanelChild) list"

definition ModalPanel_init :: "('e, 'cb) ModalPanelState" where
  "ModalPanel_init = \<lparr>components = []\<rparr>"

text \<open>
  \<^verbatim>\<open>generateUniqueComponentKey\<close> is \<^verbatim>\<open>Math.random().toString(36).substring(2)\<close>. The
  draw of the random source is an input of the model: the argument is the base-36 text
  of the number drawn (\<^verbatim>\<open>"0.i"\<close> for the draw 0.5), of which \<^verbatim>\<open>substring(2)\<close> drops the
  first two characters. Nothing else enters the key.
\<close>

definition generateUniqueComponentKey :: "string \<Rightarrow> string" where
  "generateUniqueComponentKey rnd = drop 2 rnd"

definition ModalPanel_hide ::
  "('e, 'cb) ModalPanelState \<Rightarrow> string option \<Rightarrow> string \<times> ('e, 'cb) ModalPanelState" where
  "ModalPanel_hide s identifier =
     ('''', s\<lparr>components := map_delete (components s) identifier\<rparr>)"

definition ModalPanel_show ::
  "('e, 'cb) ModalPanelState \<Rightarrow> 'e \<Rightarrow> 'cb ModalPresentingConfig \<Rightarrow> string
     \<Rightarrow> string \<times> ('e, 'cb) ModalPanelState" where
  "ModalPanel_show s el config rnd =
     (let key = generateUniqueComponentKey rnd;
          child = \<lparr>allowBackdrop = allowBackdrop config,
                   onBackdropPress = onBackdropPress config,
                   element = el\<rparr>
      in (key, s\<lparr>components := map_set (components s) key child\<rparr>))"

definition areThereAnyComponents :: "('e, 'cb) ModalPanelState \<Rightarrow> bool" where
  "areThereAnyComponents s = (length (components s) \<noteq> 0)"

text \<open>
  What \<^verbatim>\<open>renderModal\<close> hands to \<^verbatim>\<open>ModalResolver\<close>: the React key is the position of the
  record in the iteration of the map, the child is the element of the record.
\<close>

record ('e, 'cb) ModalResolverProps =
  resolverVisible :: bool
  resolverKey :: nat
  resolverAllowBackdrop :: bool
  resolverOnBackdropPress :: 'cb
  resolverChildren :: 'e

definition renderModal :: "('e, 'cb) ModalPanelChild \<Rightarrow> nat \<Rightarrow> ('e, 'cb) ModalResolverProps" where
  "renderModal config index =
     \<lparr>resolverVisible = True, resolverKey = index,
      resolverAllowBackdrop = allowBackdrop config,
      resolverOnBackdropPress = onBackdropPress config,
      resolverChildren = element config\<rparr>"

definition renderModals :: "('e, 'cb) ModalPanelState \<Rightarrow> ('e, 'cb) ModalResolverProps list" where
  "renderModals s =
     map (\<lambda>(index, config). renderModal config index)
       (enumerate 0 (map_values (components s)))"

text \<open>
  The overlays of \<^verbatim>\<open>render\<close>, after the panel's own children: none when the map is
  empty, otherwise one \<^verbatim>\<open>ModalResolver\<close> per record, later siblings drawn over earlier ones.
\<close>

definition ModalPanel_render :: "('e, 'cb) ModalPanelState \<Rightarrow> ('e, 'cb) ModalResolverProps list" where
  "ModalPanel_render s = (if areThereAnyComponents s then renderModals s else [])"

subsection \<open>ModalService\<close>

text \<open>
  \<^verbatim>\<open>ModalService\<close> is one object for the whole process; its field \<^verbatim>\<open>panel\<close> is a
  reference to the mounted presenter, or \<^verbatim>\<open>null\<close>. Presenters are objects with state of
  their own, so the model has a store from references to panel states next to the
  field. \<^verbatim>\<open>if (this.panel)\<close> tests the reference against \<^verbatim>\<open>null\<close>; a method that falls
  off its end returns \<^verbatim>\<open>undefined\<close>, the \<open>None\<close> of the result.
\<close>

record ('e, 'cb) ModalServiceType =
  panel :: "nat option"
  store :: "nat \<Rightarrow> ('e, 'cb) ModalPanelState"

definition ModalService_mount ::
  "('e, 'cb) ModalServiceType \<Rightarrow> nat option \<Rightarrow> ('e, 'cb) ModalServiceType" where
  "ModalService_mount w p = w\<lparr>panel := p\<rparr>"

definition ModalService_unmount :: "('e, 'cb) ModalServiceType \<Rightarrow> ('e, 'cb) ModalServiceType" where
  "ModalService_unmount w = w\<lparr>panel := None\<rparr>"

definition ModalService_show ::
  "('e, 'cb) ModalServiceType \<Rightarrow> 'e \<Rightarrow> 'cb ModalPresentingConfig \<Rightarrow> string
     \<Rightarrow> string option \<times> ('e, 'cb) ModalServiceType" where
  "ModalService_show w el config rnd =
     (case panel w of
        Some p \<Rightarrow>
          (case ModalPanel_show (store w p) el config rnd of
             (k, s) \<Rightarrow> (Some k, w\<lparr>store := (store w)(p := s)\<rparr>))
      | None \<Rightarrow> (None, w))"

definition ModalService_hide ::
  "('e, 'cb) ModalServiceType \<Rightarrow> string option
     \<Rightarrow> string option \<times> ('e, 'cb) ModalServiceType" where
  "ModalService_hide w identifier =
     (case panel w of
        Some p \<Rightarrow>
          (case ModalPanel_hide (store w p) identifier of
             (r, s) \<Rightarrow> (Some r, w\<lparr>store := (store w)(p := s)\<rparr>))
      | None \<Rightarrow> (None, w))"

text \<open>The two lifecycle methods of a panel, \<open>p\<close> being the reference \<^verbatim>\<open>this\<close>.\<close>

definition componentDidMount :: "nat \<Rightarrow> ('e, 'cb) ModalServiceType \<Rightarrow> ('e, 'cb) ModalServiceType" where
  "componentDidMount p w = ModalService_mount w (Some p)"

definition componentWillUnmount :: "nat \<Rightarrow> ('e, 'cb) ModalServiceType \<Rightarrow> ('e, 'cb) ModalServiceType" where
  "componentWillUnmount p w = ModalService_unmount w"

text \<open>
  A caller's requests, in the order it makes them. \<open>Show\<close> carries the draw of the random
  source that the panel would consume.
\<close>

datatype ('e, 'cb) request =
  Show 'e "'cb ModalPresentingConfig" string
| Hide "string option"

fun service_requests ::
  "('e, 'cb) ModalServiceType \<Rightarrow> ('e, 'cb) request list
     \<Rightarrow> string option list \<times> ('e, 'cb) ModalServiceType" where
  "service_requests w [] = ([], w)"
| "service_requests w (Show el config rnd # rs) =
     (case ModalService_show w el config rnd of
        (r, w') \<Rightarrow> (case service_requests w' rs of (out, w'') \<Rightarrow> (r # out, w'')))"
| "service_requests w (Hide identifier # rs) =
     (case ModalService_hide w identifier of
        (r, w') \<Rightarrow> (case service_requests w' rs of (out, w'') \<Rightarrow> (r # out, w'')))"

text \<open>The same requests made of a panel directly.\<close>

fun panel_requests ::
  "('e, 'cb) ModalPanelState \<Rightarrow> ('e, 'cb) request list
     \<Rightarrow> string list \<times> ('e, 'cb) ModalPanelState" where
  "panel_requests s [] = ([], s)"
| "panel_requests s (Show el config rnd # rs) =
     (case ModalPanel_show s el config rnd of
        (r, s') \<Rightarrow> (case panel_requests s' rs of (out, s'') \<Rightarrow> (r # out, s'')))"
| "panel_requests s (Hide identifier # rs) =
     (case ModalPanel_hide s identifier of
        (r, s') \<Rightarrow> (case panel_requests s' rs of (out, s'') \<Rightarrow> (r # out, s'')))"

section \<open>Popover\<close>

subsection \<open>Placements\<close>

text \<open>
  Modelled from the spec: the placement enumeration of \<^verbatim>\<open>popover/type.ts\<close>
  (\<^verbatim>\<open>PopoverPlacement\<close>, \<^verbatim>\<open>PopoverPlacements\<close>), which is not among the sources. The spec has
  twelve directional values, a primary side among top, bottom, left and right combined
  with a secondary alignment among none, start and end. The component refers to
  \<^verbatim>\<open>PopoverPlacements.BOTTOM\<close>; the other eleven are named alike.
\<close>

datatype PopoverPlacement =
  LEFT | LEFT_START | LEFT_END
| TOP | TOP_START | TOP_END
| RIGHT | RIGHT_START | RIGHT_END
| BOTTOM | BOTTOM_START | BOTTOM_END

datatype side = SideLeft | SideTop | SideRight | SideBottom

datatype alignment = AlignNone | AlignStart | AlignEnd

text \<open>Modelled from the spec: the primary side a placement carries.\<close>

fun primary :: "PopoverPlacement \<Rightarrow> side" where
  "primary LEFT = SideLeft"
| "primary LEFT_START = SideLeft"
| "primary LEFT_END = SideLeft"
| "primary TOP = SideTop"
| "primary TOP_START = SideTop"
| "primary TOP_END = SideTop"
| "primary RIGHT = SideRight"
| "primary RIGHT_START = SideRight"
| "primary RIGHT_END = SideRight"
| "primary BOTTOM = SideBottom"
| "primary BOTTOM_START = SideBottom"
| "primary BOTTOM_END = SideBottom"

text \<open>Modelled from the spec: the secondary alignment a placement carries.\<close>

fun secondary :: "PopoverPlacement \<Rightarrow> alignment" where
  "secondary LEFT = AlignNone"
| "secondary LEFT_START = AlignStart"
| "secondary LEFT_END = AlignEnd"
| "secondary TOP = AlignNone"
| "secondary TOP_START = AlignStart"
| "secondary TOP_END = AlignEnd"
| "secondary RIGHT = AlignNone"
| "secondary RIGHT_START = AlignStart"
| "secondary RIGHT_END = AlignEnd"
| "secondary BOTTOM = AlignNone"
| "secondary BOTTOM_START = AlignStart"
| "secondary BOTTOM_END = AlignEnd"

text \<open>Modelled from the spec: the placement of a side and an alignment.\<close>

fun placement_of :: "side \<Rightarrow> alignment \<Rightarrow> PopoverPlacement" where
  "placement_of SideLeft AlignNone = LEFT"
| "placement_of SideLeft AlignStart = LEFT_START"
| "placement_of SideLeft AlignEnd = LEFT_END"
| "placement_of SideTop AlignNone = TOP"
| "placement_of SideTop AlignStart = TOP_START"
| "placement_of SideTop AlignEnd = TOP_END"
| "placement_of SideRight AlignNone = RIGHT"
| "placement_of SideRight AlignStart = RIGHT_START"
| "placement_of SideRight AlignEnd = RIGHT_END"
| "placement_of SideBottom AlignNone = BOTTOM"
| "placement_of SideBottom AlignStart = BOTTOM_START"
| "placement_of SideBottom AlignEnd = BOTTOM_END"

text \<open>Modelled from the spec: the primary direction rotated by 180 degrees.\<close>

fun opposite :: "side \<Rightarrow> side" where
  "opposite SideLeft = SideRight"
| "opposite SideRight = SideLeft"
| "opposite SideTop = SideBottom"
| "opposite SideBottom = SideTop"

text \<open>
  Modelled from the spec: \<^verbatim>\<open>PopoverPlacement.reverse\<close>, the placement with the opposite
  primary side and the same secondary alignment.
\<close>

definition reverse :: "PopoverPlacement \<Rightarrow> PopoverPlacement" where
  "reverse p = placement_of (opposite (primary p)) (secondary p)"

text \<open>
  Modelled from the spec: \<^verbatim>\<open>PopoverPlacement.rawValue\<close>, the raw string form of a
  placement. The strings are the ones that the documentation of the property
  \<^verbatim>\<open>placement\<close> in \<^verbatim>\<open>popover.component.tsx\<close> lists.
\<close>

fun rawValue :: "PopoverPlacement \<Rightarrow> string" where
  "rawValue LEFT = ''left''"
| "rawValue LEFT_START = ''left start''"
| "rawValue LEFT_END = ''left end''"
| "rawValue TOP = ''top''"
| "rawValue TOP_START = ''top start''"
| "rawValue TOP_END = ''top end''"
| "rawValue RIGHT = ''right''"
| "rawValue RIGHT_START = ''right start''"
| "rawValue RIGHT_END = ''right end''"
| "rawValue BOTTOM = ''bottom''"
| "rawValue BOTTOM_START = ''bottom start''"
| "rawValue BOTTOM_END = ''bottom end''"

definition placements :: "PopoverPlacement list" where
  "placements =
     [LEFT, LEFT_START, LEFT_END, TOP, TOP_START, TOP_END,
      RIGHT, RIGHT_START, RIGHT_END, BOTTOM, BOTTOM_START, BOTTOM_END]"

text \<open>
  Modelled from the spec: \<^verbatim>\<open>PopoverPlacements.parse\<close>. The requested placement is parsed
  from its raw string form and an unrecognized string falls back to the placement
  given. The argument is a \<^verbatim>\<open>string | PopoverPlacement\<close>: a value that is a placement
  already is that placement.
\<close>

fun parse :: "string + PopoverPlacement \<Rightarrow> PopoverPlacement \<Rightarrow> PopoverPlacement" where
  "parse (Inl raw) fallback =
     (case find (\<lambda>p. rawValue p = raw) placements of
        Some p \<Rightarrow> p
      | None \<Rightarrow> fallback)"
| "parse (Inr p) fallback = p"

subsection \<open>Frames\<close>

text \<open>
  Modelled from the spec: the rectangles of \<^verbatim>\<open>popover/type.ts\<close>. The component reads
  \<^verbatim>\<open>origin.x\<close> and \<^verbatim>\<open>origin.y\<close> of a \<^verbatim>\<open>Frame\<close>. JavaScript numbers are taken as real numbers.
\<close>

record Point =
  point_x :: real
  point_y :: real

record Size =
  size_width :: real
  size_height :: real

record Frame =
  origin :: Point
  size :: Size

text \<open>
  Modelled from the spec: steps 3 and 4 of the placement algorithm for an anchor that
  declares no offsets. The overlay's leading edge is flush against the anchor on the
  requested side; across, \<open>none\<close> centers the overlay on the anchor's midpoint and
  \<open>start\<close> and \<open>end\<close> align the overlay's edge with the anchor's. It stands for
  \<^verbatim>\<open>PopoverPlacement.frame\<close> where an example needs one.
\<close>

definition align_along :: "alignment \<Rightarrow> real \<Rightarrow> real \<Rightarrow> real \<Rightarrow> real" where
  "align_along a anchor_start anchor_length overlay_length =
     (case a of
        AlignNone \<Rightarrow> anchor_start + (anchor_length - overlay_length) / 2
      | AlignStart \<Rightarrow> anchor_start
      | AlignEnd \<Rightarrow> anchor_start + anchor_length - overlay_length)"

definition spec_frame :: "PopoverPlacement \<Rightarrow> Frame \<Rightarrow> Frame \<Rightarrow> unit \<Rightarrow> Frame" where
  "spec_frame p popover child offsets =
     (let ax = point_x (origin child); ay = point_y (origin child);
          aw = size_width (size child); ah = size_height (size child);
          w = size_width (size popover); h = size_height (size popover)
      in case primary p of
           SideBottom \<Rightarrow>
             popover\<lparr>origin := \<lparr>point_x = align_along (secondary p) ax aw w, point_y = ay + ah\<rparr>\<rparr>
         | SideTop \<Rightarrow>
             popover\<lparr>origin := \<lparr>point_x = align_along (secondary p) ax aw w, point_y = ay - h\<rparr>\<rparr>
         | SideLeft \<Rightarrow>
             popover\<lparr>origin := \<lparr>point_x = ax - w, point_y = align_along (secondary p) ay ah h\<rparr>\<rparr>
         | SideRight \<Rightarrow>
             popover\<lparr>origin := \<lparr>point_x = ax + aw, point_y = align_along (secondary p) ay ah h\<rparr>\<rparr>)"

subsection \<open>PopoverComponent\<close>

definition TAG_CHILD :: nat where
  "TAG_CHILD = 0"

definition TAG_CONTENT :: nat where
  "TAG_CONTENT = 1"

definition PLACEMENT_DEFAULT :: PopoverPlacement where
  "PLACEMENT_DEFAULT = BOTTOM"

text \<open>
  The properties the component reads: those of \<^verbatim>\<open>ModalPresentingBased\<close> passed on to the
  registry, the content, the style of the child (\<^verbatim>\<open>children.props.style\<close>), the
  visibility and the requested placement.
\<close>

record ('c, 'st, 'cb) PopoverProps = "'cb ModalPresentingConfig" +
  content :: 'c
  children_style :: 'st
  visible :: bool
  placement :: "string + PopoverPlacement"

text \<open>
  The style of the measured view: \<^verbatim>\<open>styles.container\<close> while it is measured, and the
  \<^verbatim>\<open>additionalStyle\<close> that \<^verbatim>\<open>showPopoverModal\<close> gives the clone it presents.
\<close>

record ViewStyle =
  style_position :: "string option"
  style_left :: "real option"
  style_top :: "real option"
  style_opacity :: "real option"

definition styles_container :: ViewStyle where
  "styles_container =
     \<lparr>style_position = Some ''absolute'', style_left = None, style_top = None,
      style_opacity = Some 0\<rparr>"

text \<open>
  The element that \<^verbatim>\<open>renderPopoverElement\<close> builds: a view tagged for measuring around a
  \<^verbatim>\<open>PopoverView\<close> whose \<^verbatim>\<open>placement\<close> is the raw value of the indicator placement.
\<close>

record 'c MeasuringElement =
  element_tag :: nat
  element_style :: ViewStyle
  view_placement :: string
  view_children :: 'c

record ('c, 'st, 'cb) PopoverComponent =
  props :: "('c, 'st, 'cb) PopoverProps"
  popoverElement :: "'c MeasuringElement option"
  popoverModalId :: "string option"

text \<open>
  The component as constructed: \<^verbatim>\<open>popoverElement\<close> is not initialised and
  \<^verbatim>\<open>popoverModalId\<close> is the empty string.
\<close>

definition PopoverComponent_init ::
  "('c, 'st, 'cb) PopoverProps \<Rightarrow> ('c, 'st, 'cb) PopoverComponent" where
  "PopoverComponent_init ps = \<lparr>props = ps, popoverElement = None, popoverModalId = Some ''''\<rparr>"

text \<open>
  \<^verbatim>\<open>Offsets.find\<close> and \<^verbatim>\<open>PopoverPlacement.frame\<close> belong to \<^verbatim>\<open>popover/type.ts\<close>; they are
  the parameters \<open>find_offsets\<close> and \<open>frame\<close> of the functions that call them. The layout
  is the measuring result, from tags to frames.
\<close>

definition getPopoverFrame ::
  "(PopoverPlacement \<Rightarrow> 'f \<Rightarrow> 'f \<Rightarrow> 'o \<Rightarrow> Frame) \<Rightarrow> ('st \<Rightarrow> 'o)
     \<Rightarrow> ('c, 'st, 'cb) PopoverComponent \<Rightarrow> (nat \<Rightarrow> 'f) \<Rightarrow> string + PopoverPlacement \<Rightarrow> Frame" where
  "getPopoverFrame frame find_offsets this layout rawPlacement =
     (let popoverFrame = layout TAG_CONTENT;
          childFrame = layout TAG_CHILD;
          offsetRect = find_offsets (children_style (props this));
          placement = parse rawPlacement PLACEMENT_DEFAULT
      in frame placement popoverFrame childFrame offsetRect)"

text \<open>
  \<^verbatim>\<open>React.cloneElement\<close> refuses a value that is no element: called on the uninitialised
  field it throws. With an element it copies the element and replaces the properties
  given, here the style.
\<close>

datatype error = NotAnElement

definition cloneElement :: "'c MeasuringElement option \<Rightarrow> ViewStyle \<Rightarrow> error + 'c MeasuringElement" where
  "cloneElement el st =
     (case el of
        None \<Rightarrow> Inl NotAnElement
      | Some e \<Rightarrow> Inr (e\<lparr>element_style := st\<rparr>))"

definition showPopoverModal ::
  "(PopoverPlacement \<Rightarrow> 'f \<Rightarrow> 'f \<Rightarrow> 'o \<Rightarrow> Frame) \<Rightarrow> ('st \<Rightarrow> 'o)
     \<Rightarrow> ('c, 'st, 'cb) PopoverComponent \<Rightarrow> ('c MeasuringElement, 'cb) ModalServiceType
     \<Rightarrow> 'c MeasuringElement option \<Rightarrow> (nat \<Rightarrow> 'f) \<Rightarrow> string
     \<Rightarrow> error + string option \<times> ('c MeasuringElement, 'cb) ModalServiceType" where
  "showPopoverModal frame find_offsets this w el layout rnd =
     (let popoverFrame = getPopoverFrame frame find_offsets this layout (placement (props this));
          popoverPosition = origin popoverFrame;
          additionalStyle =
            \<lparr>style_position = None, style_left = Some (point_x popoverPosition),
             style_top = Some (point_y popoverPosition), style_opacity = Some 1\<rparr>
      in case cloneElement el additionalStyle of
           Inl e \<Rightarrow> Inl e
         | Inr popover \<Rightarrow>
             Inr (ModalService_show w popover
                    \<lparr>allowBackdrop = allowBackdrop (props this),
                     onBackdropPress = onBackdropPress (props this)\<rparr> rnd))"

definition onMeasure ::
  "(PopoverPlacement \<Rightarrow> 'f \<Rightarrow> 'f \<Rightarrow> 'o \<Rightarrow> Frame) \<Rightarrow> ('st \<Rightarrow> 'o)
     \<Rightarrow> ('c, 'st, 'cb) PopoverComponent \<Rightarrow> ('c MeasuringElement, 'cb) ModalServiceType
     \<Rightarrow> (nat \<Rightarrow> 'f) \<Rightarrow> string
     \<Rightarrow> error + ('c, 'st, 'cb) PopoverComponent \<times> ('c MeasuringElement, 'cb) ModalServiceType" where
  "onMeasure frame find_offsets this w layout rnd =
     (if visible (props this) then
        (case showPopoverModal frame find_offsets this w (popoverElement this) layout rnd of
           Inl e \<Rightarrow> Inl e
         | Inr (r, w') \<Rightarrow> Inr (this\<lparr>popoverModalId := r\<rparr>, w'))
      else Inr (this, w))"

text \<open>
  \<^verbatim>\<open>componentDidUpdate\<close>: \<^verbatim>\<open>setState({ layout: undefined })\<close> only asks for another
  rendering, which measures again; it touches neither the fields nor the registry.
\<close>

definition componentDidUpdate ::
  "('c, 'st, 'cb) PopoverProps \<Rightarrow> ('c, 'st, 'cb) PopoverComponent
     \<Rightarrow> ('c MeasuringElement, 'cb) ModalServiceType
     \<Rightarrow> ('c, 'st, 'cb) PopoverComponent \<times> ('c MeasuringElement, 'cb) ModalServiceType" where
  "componentDidUpdate prevProps this w =
     (if visible prevProps \<noteq> visible (props this) then
        (if visible (props this) then (this, w)
         else (case ModalService_hide w (popoverModalId this) of
                 (r, w') \<Rightarrow> (this\<lparr>popoverModalId := r\<rparr>, w')))
      else (this, w))"

definition renderPopoverElement :: "('c, 'st, 'cb) PopoverComponent \<Rightarrow> 'c \<Rightarrow> 'c MeasuringElement" where
  "renderPopoverElement this children =
     (let popoverPlacement = parse (placement (props this)) PLACEMENT_DEFAULT;
          indicatorPlacement = reverse popoverPlacement
      in \<lparr>element_tag = TAG_CONTENT, element_style = styles_container,
          view_placement = rawValue indicatorPlacement, view_children = children\<rparr>)"

text \<open>
  What \<^verbatim>\<open>render\<close> does to the component: when visible it keeps the element it built in
  \<^verbatim>\<open>popoverElement\<close> and returns a measuring node, whose result calls \<^verbatim>\<open>onMeasure\<close> later;
  when not visible it returns the children alone. The flag says whether a measuring
  node was rendered.
\<close>

definition PopoverComponent_render ::
  "('c, 'st, 'cb) PopoverComponent \<Rightarrow> bool \<times> ('c, 'st, 'cb) PopoverComponent" where
  "PopoverComponent_render this =
     (if visible (props this) then
        (True, this\<lparr>popoverElement := Some (renderPopoverElement this (content (props this)))\<rparr>)
      else (False, this))"

text \<open>
  An update of the properties by the parent, as React runs it: the new properties are
  set, the component is rendered, and \<^verbatim>\<open>componentDidUpdate\<close> is called with the previous
  properties.
\<close>

definition receiveProps ::
  "('c, 'st, 'cb) PopoverProps \<Rightarrow> ('c, 'st, 'cb) PopoverComponent
     \<Rightarrow> ('c MeasuringElement, 'cb) ModalServiceType
     \<Rightarrow> ('c, 'st, 'cb) PopoverComponent \<times> ('c MeasuringElement, 'cb) ModalServiceType" where
  "receiveProps nextProps this w =
     componentDidUpdate (props this) (snd (PopoverComponent_render (this\<lparr>props := nextProps\<rparr>))) w"

text \<open>The parent sets the property \<^verbatim>\<open>visible\<close> and leaves the other properties alone.\<close>

definition setVisible ::
  "bool \<Rightarrow> ('c, 'st, 'cb) PopoverComponent \<Rightarrow> ('c MeasuringElement, 'cb) ModalServiceType
     \<Rightarrow> ('c, 'st, 'cb) PopoverComponent \<times> ('c MeasuringElement, 'cb) ModalServiceType" where
  "setVisible v this w = receiveProps ((props this)\<lparr>visible := v\<rparr>) this w"






section \<open>ViewPager\<close>

text \<open>
  The fields and properties that the release of a pan gesture reads, and the two
  components of the gesture state it reads. JavaScript numbers are taken as real
  numbers.
\<close>

record ViewPager =
  selectedIndex :: real
  contentWidth :: real

record PanResponderGestureState =
  dx :: real
  vx :: real

record ScrollToIndexParams =
  scroll_index :: real
  scroll_animated :: "bool option"

record OffsetAnimation =
  toValue :: real
  duration :: nat

text \<open>
  \<^verbatim>\<open>onPanResponderRelease\<close> ends in a call of \<^verbatim>\<open>scrollToIndex\<close> on either branch; its value
  here is the argument of that call.
\<close>

definition onPanResponderRelease :: "ViewPager \<Rightarrow> PanResponderGestureState \<Rightarrow> ScrollToIndexParams" where
  "onPanResponderRelease this state =
     (if \<bar>vx state\<bar> \<ge> 0.5 \<or> \<bar>dx state\<bar> \<ge> 0.5 * contentWidth this then
        (let index = (if dx state > 0 then selectedIndex this - 1 else selectedIndex this + 1)
         in \<lparr>scroll_index = index, scroll_animated = Some True\<rparr>)
      else
        (let index = selectedIndex this
         in \<lparr>scroll_index = index, scroll_animated = Some True\<rparr>))"

text \<open>
  \<^verbatim>\<open>scrollToIndex\<close> through \<^verbatim>\<open>scrollToOffset\<close> to \<^verbatim>\<open>createOffsetAnimation\<close>: the animation
  that is started.
\<close>

definition createOffsetAnimation :: "real \<Rightarrow> bool option \<Rightarrow> OffsetAnimation" where
  "createOffsetAnimation offset animated =
     \<lparr>toValue = - offset, duration = (if animated = Some True then 300 else 0)\<rparr>"

definition scrollToIndex :: "ViewPager \<Rightarrow> ScrollToIndexParams \<Rightarrow> OffsetAnimation" where
  "scrollToIndex this params =
     (let offset = contentWidth this * scroll_index params
      in createOffsetAnimation offset (scroll_animated params))"

section \<open>Sample values\<close>

definition config0 :: "unit ModalPresentingConfig" where
  "config0 = \<lparr>allowBackdrop = True, onBackdropPress = ()\<rparr>"

definition panel0 :: "(string, unit) ModalPanelState" where
  "panel0 = snd (ModalPanel_show ModalPanel_init ''A'' config0 ''0.i'')"

definition service0 :: "(string, unit) ModalServiceType" where
  "service0 = \<lparr>panel = None, store = (\<lambda>p. ModalPanel_init)\<rparr>"

definition service1 :: "(string MeasuringElement, unit) ModalServiceType" where
  "service1 = \<lparr>panel = Some 1, store = (\<lambda>p. ModalPanel_init)\<rparr>"

text \<open>
  A popover that is not visible and asks for a placement that does not exist, and a
  measuring result: an anchor at (10, 20) of 100 by 40 and a content of 60 by 30.
\<close>

definition popover0 :: "(string, unit, unit) PopoverComponent" where
  "popover0 =
     PopoverComponent_init
       \<lparr>allowBackdrop = True, onBackdropPress = (), content = ''hello'', children_style = (),
        visible = False, placement = Inl ''diagonal''\<rparr>"

definition layout0 :: "nat \<Rightarrow> Frame" where
  "layout0 t =
     (if t = TAG_CHILD
      then \<lparr>origin = \<lparr>point_x = 10, point_y = 20\<rparr>, size = \<lparr>size_width = 100, size_height = 40\<rparr>\<rparr>
      else \<lparr>origin = \<lparr>point_x = 0, point_y = 0\<rparr>, size = \<lparr>size_width = 60, size_height = 30\<rparr>\<rparr>)"

definition pager0 :: ViewPager where
  "pager0 = \<lparr>selectedIndex = 1, contentWidth = 300\<rparr>"





section \<open>Properties of the overlay registry\<close>

subsection \<open>The map operations\<close>

lemma map_keys_map_set:
  "map_keys (map_set m k v) = (if k \<in> set (map_keys m) then map_keys m else map_keys m @ [k])"
  by (induction m) (force simp: map_keys_def)+

lemma map_set_fresh:
  "k \<notin> set (map_keys m) \<Longrightarrow> map_set m k v = m @ [(k, v)]"
  by (induction m) (auto simp: map_keys_def)

lemma distinct_map_set:
  "distinct (map_keys m) \<Longrightarrow> distinct (map_keys (map_set m k v))"
  by (simp add: map_keys_map_set)

lemma map_keys_map_delete:
  "map_keys (map_delete m x) = filter (\<lambda>k. Some k \<noteq> x) (map_keys m)"
  by (induction m) (auto simp: map_keys_def map_delete_def)

lemma distinct_map_delete:
  "distinct (map_keys m) \<Longrightarrow> distinct (map_keys (map_delete m x))"
  by (simp add: map_keys_map_delete)

lemma map_delete_absent:
  "x \<notin> Some ` set (map_keys m) \<Longrightarrow> map_delete m x = m"
  by (induction m) (auto simp: map_keys_def map_delete_def)

lemma map_delete_twice:
  "map_delete (map_delete m x) x = map_delete m x"
  by (simp add: map_delete_def)

lemma map_delete_removes:
  "x \<notin> Some ` set (map_keys (map_delete m x))"
  by (auto simp: map_keys_map_delete)

subsection \<open>The panel\<close>

lemma components_show:
  "components (snd (ModalPanel_show s el config rnd)) =
     map_set (components s) (generateUniqueComponentKey rnd)
       \<lparr>allowBackdrop = allowBackdrop config, onBackdropPress = onBackdropPress config,
        element = el\<rparr>"
  by (simp add: ModalPanel_show_def Let_def)

lemma fst_show: "fst (ModalPanel_show s el config rnd) = generateUniqueComponentKey rnd"
  by (simp add: ModalPanel_show_def Let_def)

lemma components_hide:
  "components (snd (ModalPanel_hide s x)) = map_delete (components s) x"
  by (simp add: ModalPanel_hide_def)

lemma panel_requests_Show:
  "panel_requests s (Show el config rnd # rs) =
     (fst (ModalPanel_show s el config rnd) #
        fst (panel_requests (snd (ModalPanel_show s el config rnd)) rs),
      snd (panel_requests (snd (ModalPanel_show s el config rnd)) rs))"
  by (simp split: prod.splits)

lemma panel_requests_Hide:
  "panel_requests s (Hide x # rs) =
     (fst (ModalPanel_hide s x) # fst (panel_requests (snd (ModalPanel_hide s x)) rs),
      snd (panel_requests (snd (ModalPanel_hide s x)) rs))"
  by (simp split: prod.splits)

lemma snd_panel_requests_Show:
  "snd (panel_requests s (Show el config rnd # rs)) =
     snd (panel_requests (snd (ModalPanel_show s el config rnd)) rs)"
  by (simp only: panel_requests_Show snd_conv)

lemma snd_panel_requests_Hide:
  "snd (panel_requests s (Hide x # rs)) = snd (panel_requests (snd (ModalPanel_hide s x)) rs)"
  by (simp only: panel_requests_Hide snd_conv)

lemma distinct_panel_requests:
  "distinct (map_keys (components s)) \<Longrightarrow>
   distinct (map_keys (components (snd (panel_requests s rs))))"
proof (induction rs arbitrary: s)
  case Nil
  then show ?case by simp
next
  case (Cons r rs)
  show ?case
  proof (cases r)
    case (Show el config rnd)
    have "distinct (map_keys (components (snd (ModalPanel_show s el config rnd))))"
      using Cons.prems by (simp add: components_show distinct_map_set)
    from Cons.IH [OF this] show ?thesis
      unfolding Show snd_panel_requests_Show .
  next
    case (Hide x)
    have "distinct (map_keys (components (snd (ModalPanel_hide s x))))"
      using Cons.prems by (simp add: components_hide distinct_map_delete)
    from Cons.IH [OF this] show ?thesis
      unfolding Hide snd_panel_requests_Hide .
  qed
qed

lemma panel0_eq:
  "panel0 =
     \<lparr>components = [(''i'', \<lparr>allowBackdrop = True, onBackdropPress = (), element = ''A''\<rparr>)]\<rparr>"
  by (simp add: panel0_def ModalPanel_show_def ModalPanel_init_def config0_def
      generateUniqueComponentKey_def Let_def)

text \<open>
  The identifiers that a run of \<^verbatim>\<open>show\<close> calls returns are the draws of the random
  source without their first two characters, whatever the panel holds: they are distinct
  exactly when those are.
\<close>

lemma show_identifiers:
  "fst (panel_requests s (map (\<lambda>(el, config, rnd). Show el config rnd) calls)) =
     map (\<lambda>(el, config, rnd). generateUniqueComponentKey rnd) calls"
proof (induction calls arbitrary: s)
  case Nil
  show ?case by simp
next
  case (Cons c calls)
  obtain el config rnd where c: "c = (el, config, rnd)"
    by (cases c) auto
  show ?case
    using Cons.IH [of "snd (ModalPanel_show s el config rnd)"]
    by (simp add: c fst_show panel_requests_Show del: panel_requests.simps)
qed

subsection \<open>Rendering\<close>

lemma resolverKey_renderModal:
  "resolverKey (case p of (index, config) \<Rightarrow> renderModal config index) = fst p"
  by (cases p) (simp add: renderModal_def)

lemma resolverChildren_renderModal:
  "resolverChildren (case p of (index, config) \<Rightarrow> renderModal config index) = element (snd p)"
  by (cases p) (simp add: renderModal_def)

lemma map_snd_enumerate_app: "map (\<lambda>p. f (snd p)) (enumerate n xs) = map f xs"
  by (induction xs arbitrary: n) simp_all

lemma map_fst_enumerate_app: "map (\<lambda>p. fst p) (enumerate n xs) = [n..<n + length xs]"
  using map_fst_enumerate [of n xs] by simp

lemma renderModals_children:
  "map resolverChildren (renderModals s) = map element (map_values (components s))"
  by (simp add: renderModals_def resolverChildren_renderModal comp_def map_snd_enumerate_app)

lemma renderModals_keys:
  "map resolverKey (renderModals s) = [0..<length (components s)]"
  by (simp add: renderModals_def resolverKey_renderModal comp_def map_fst_enumerate_app
      map_values_def)

lemma render_children:
  "map resolverChildren (ModalPanel_render s) = map element (map_values (components s))"
  by (cases "components s = []")
    (simp_all only: ModalPanel_render_def areThereAnyComponents_def renderModals_children
      map_values_def list.map list.size length_0_conv if_True if_False simp_thms)

lemma render_keys:
  "map resolverKey (ModalPanel_render s) = [0..<length (components s)]"
  by (cases "components s = []")
    (simp_all add: ModalPanel_render_def areThereAnyComponents_def renderModals_keys)

subsection \<open>The service\<close>

lemma service_requests_Show:
  "service_requests w (Show el config rnd # rs) =
     (fst (ModalService_show w el config rnd) #
        fst (service_requests (snd (ModalService_show w el config rnd)) rs),
      snd (service_requests (snd (ModalService_show w el config rnd)) rs))"
  by (simp split: prod.splits)

lemma service_requests_Hide:
  "service_requests w (Hide x # rs) =
     (fst (ModalService_hide w x) # fst (service_requests (snd (ModalService_hide w x)) rs),
      snd (service_requests (snd (ModalService_hide w x)) rs))"
  by (simp split: prod.splits)

lemma ModalService_show_mounted:
  "panel w = Some p \<Longrightarrow>
   ModalService_show w el config rnd =
     (Some (fst (ModalPanel_show (store w p) el config rnd)),
      w\<lparr>store := (store w)(p := snd (ModalPanel_show (store w p) el config rnd))\<rparr>)"
  by (simp add: ModalService_show_def split: prod.splits)

lemma ModalService_hide_mounted:
  "panel w = Some p \<Longrightarrow>
   ModalService_hide w x =
     (Some (fst (ModalPanel_hide (store w p) x)),
      w\<lparr>store := (store w)(p := snd (ModalPanel_hide (store w p) x))\<rparr>)"
  by (simp add: ModalService_hide_def split: prod.splits)

lemma service_requests_unmounted:
  "panel w = None \<Longrightarrow> service_requests w rs = (replicate (length rs) None, w)"
proof (induction rs)
  case Nil
  show ?case by simp
next
  case (Cons r rs)
  then show ?case
    by (cases r) (simp_all add: ModalService_show_def ModalService_hide_def)
qed

lemma service_requests_mounted:
  "panel w = Some p \<Longrightarrow>
   service_requests w rs =
     (map Some (fst (panel_requests (store w p) rs)),
      w\<lparr>store := (store w)(p := snd (panel_requests (store w p) rs))\<rparr>)"
proof (induction rs arbitrary: w)
  case Nil
  show ?case by simp
next
  case (Cons r rs)
  show ?case
  proof (cases r)
    case (Show el config rnd)
    define w' where
      "w' = w\<lparr>store := (store w)(p := snd (ModalPanel_show (store w p) el config rnd))\<rparr>"
    have p': "panel w' = Some p"
      using Cons.prems by (simp add: w'_def)
    have s': "store w' p = snd (ModalPanel_show (store w p) el config rnd)"
      by (simp add: w'_def)
    have u: "w'\<lparr>store := (store w')(p := t)\<rparr> = w\<lparr>store := (store w)(p := t)\<rparr>" for t
      by (simp add: w'_def)
    have 1: "ModalService_show w el config rnd =
        (Some (fst (ModalPanel_show (store w p) el config rnd)), w')"
      using ModalService_show_mounted [OF Cons.prems] by (simp add: w'_def)
    show ?thesis
      unfolding Show service_requests_Show panel_requests_Show 1 fst_conv snd_conv
        Cons.IH [OF p'] s' u
      by (simp add: fun_upd_def)
  next
    case (Hide x)
    define w' where "w' = w\<lparr>store := (store w)(p := snd (ModalPanel_hide (store w p) x))\<rparr>"
    have p': "panel w' = Some p"
      using Cons.prems by (simp add: w'_def)
    have s': "store w' p = snd (ModalPanel_hide (store w p) x)"
      by (simp add: w'_def)
    have u: "w'\<lparr>store := (store w')(p := t)\<rparr> = w\<lparr>store := (store w)(p := t)\<rparr>" for t
      by (simp add: w'_def)
    have 1: "ModalService_hide w x = (Some (fst (ModalPanel_hide (store w p) x)), w')"
      using ModalService_hide_mounted [OF Cons.prems] by (simp add: w'_def)
    show ?thesis
      unfolding Hide service_requests_Hide panel_requests_Hide 1 fst_conv snd_conv
        Cons.IH [OF p'] s' u
      by (simp add: fun_upd_def)
  qed
qed

subsection \<open>Claims about the registry\<close>

text \<open>
  Claim C1. Consecutive calls of the panel's \<^verbatim>\<open>show\<close> with no \<^verbatim>\<open>hide\<close> between them are
  claimed to return pairwise distinct identifiers, each one not yet a key of the map.
  The key is the draw of \<^verbatim>\<open>Math.random\<close> in base 36 without its first two characters,
  and nothing compares it with the keys the map holds. When the random source yields
  0.5 twice (\<^verbatim>\<open>"0.i"\<close>), both calls return \<^verbatim>\<open>"i"\<close>, the second identifier is a key of the
  map already, and the second record takes the place of the first: one overlay is left
  where two were shown.
\<close>

theorem show_equal_draws_repeat_identifier:
  "panel_requests (ModalPanel_init :: (string, unit) ModalPanelState)
     [Show ''A'' config0 ''0.i'', Show ''B'' config0 ''0.i''] =
     ([''i'', ''i''],
      \<lparr>components = [(''i'', \<lparr>allowBackdrop = True, onBackdropPress = (), element = ''B''\<rparr>)]\<rparr>)
   \<and> fst (ModalPanel_show panel0 ''B'' config0 ''0.i'') \<in> set (map_keys (components panel0))"
  by (simp add: ModalPanel_show_def ModalPanel_init_def config0_def panel0_eq map_keys_def
      generateUniqueComponentKey_def Let_def)

text \<open>
  Claim C2. While no presenter is mounted (the field \<^verbatim>\<open>panel\<close> is \<^verbatim>\<open>null\<close>),
  \<^verbatim>\<open>ModalService.show\<close> and \<^verbatim>\<open>ModalService.hide\<close> return \<^verbatim>\<open>undefined\<close> for every argument,
  throw nothing and leave the service and every panel as they were.
\<close>

theorem unmounted_service_is_noop:
  assumes "panel w = None"
  shows "ModalService_show w el config rnd = (None, w) \<and>
         ModalService_hide w identifier = (None, w)"
  using assms by (simp add: ModalService_show_def ModalService_hide_def)

theorem unmounted_service_is_noop_witness:
  "panel service0 = None \<and>
   ModalService_show service0 ''A'' config0 ''0.i'' = (None, service0) \<and>
   ModalService_hide service0 (Some ''i'') = (None, service0)"
proof -
  have n: "panel service0 = None"
    by (simp add: service0_def)
  show ?thesis
    using n unmounted_service_is_noop [OF n] by simp
qed

text \<open>
  Claim C3. For every identifier and every state of the panel, \<^verbatim>\<open>hide\<close> returns the empty
  string and leaves no record under the identifier; hiding an identifier that is not a
  key of the map leaves the panel unchanged; and hiding the same identifier a second
  time gives what hiding it once gave.
\<close>

theorem ModalPanel_hide_idempotent:
  "fst (ModalPanel_hide s x) = '''' \<and>
   x \<notin> Some ` set (map_keys (components (snd (ModalPanel_hide s x)))) \<and>
   (x \<notin> Some ` set (map_keys (components s)) \<longrightarrow> snd (ModalPanel_hide s x) = s) \<and>
   ModalPanel_hide (snd (ModalPanel_hide s x)) x = ModalPanel_hide s x"
  by (simp add: ModalPanel_hide_def map_delete_absent map_delete_twice map_delete_removes)

theorem ModalPanel_hide_idempotent_witness:
  "Some ''zz'' \<notin> Some ` set (map_keys (components panel0)) \<and>
   ModalPanel_hide panel0 (Some ''zz'') = ('''', panel0) \<and>
   ModalPanel_hide panel0 (Some ''i'') = ('''', ModalPanel_init) \<and>
   ModalPanel_hide (snd (ModalPanel_hide panel0 (Some ''i''))) (Some ''i'') = ('''', ModalPanel_init)"
  using ModalPanel_hide_idempotent [of panel0 "Some ''zz''"]
    ModalPanel_hide_idempotent [of panel0 "Some ''i''"]
  by (simp add: panel0_eq map_keys_def ModalPanel_hide_def map_delete_def ModalPanel_init_def)

text \<open>
  Claim C4. \<^verbatim>\<open>mount\<close> replaces the binding. After \<^verbatim>\<open>mount(P1)\<close> and \<^verbatim>\<open>mount(P2)\<close> the field
  holds P2; a \<^verbatim>\<open>show\<close> returns what the \<^verbatim>\<open>show\<close> of P2 returns and changes the state of P2
  alone; and any run of \<^verbatim>\<open>show\<close> and \<^verbatim>\<open>hide\<close> requests that follows is the same run made of
  P2 directly, while P1 keeps the state it had.
\<close>

theorem mount_last_writer_wins:
  assumes "p1 \<noteq> p2"
  shows "panel (ModalService_mount (ModalService_mount w (Some p1)) (Some p2)) = Some p2 \<and>
    ModalService_show (ModalService_mount (ModalService_mount w (Some p1)) (Some p2)) el config rnd =
      (Some (fst (ModalPanel_show (store w p2) el config rnd)),
       \<lparr>panel = Some p2, store = (store w)(p2 := snd (ModalPanel_show (store w p2) el config rnd))\<rparr>) \<and>
    service_requests (ModalService_mount (ModalService_mount w (Some p1)) (Some p2)) rs =
      (map Some (fst (panel_requests (store w p2) rs)),
       \<lparr>panel = Some p2, store = (store w)(p2 := snd (panel_requests (store w p2) rs))\<rparr>) \<and>
    store (snd (service_requests
      (ModalService_mount (ModalService_mount w (Some p1)) (Some p2)) rs)) p1 = store w p1"
proof -
  define w' where "w' = ModalService_mount (ModalService_mount w (Some p1)) (Some p2)"
  have w': "w' = \<lparr>panel = Some p2, store = store w\<rparr>"
    by (simp add: w'_def ModalService_mount_def)
  have run: "service_requests w' rs =
      (map Some (fst (panel_requests (store w p2) rs)),
       \<lparr>panel = Some p2, store = (store w)(p2 := snd (panel_requests (store w p2) rs))\<rparr>)"
    using service_requests_mounted [of w' p2 rs] by (simp add: w')
  have one: "ModalService_show w' el config rnd =
      (Some (fst (ModalPanel_show (store w p2) el config rnd)),
       \<lparr>panel = Some p2, store = (store w)(p2 := snd (ModalPanel_show (store w p2) el config rnd))\<rparr>)"
    by (simp add: ModalService_show_def w' split: prod.splits)
  have "store (snd (service_requests w' rs)) p1 = store w p1"
    using assms by (simp add: run)
  with run one show ?thesis
    unfolding w'_def [symmetric] by (simp add: w')
qed

theorem mount_last_writer_wins_witness:
  "(1::nat) \<noteq> 2 \<and>
   service_requests (ModalService_mount (ModalService_mount service0 (Some 1)) (Some 2))
     [Show ''A'' config0 ''0.i'', Show ''B'' config0 ''0.j'', Hide (Some ''i'')] =
     ([Some ''i'', Some ''j'', Some ''''],
      \<lparr>panel = Some 2,
       store = (store service0)(2 :=
         \<lparr>components = [(''j'', \<lparr>allowBackdrop = True, onBackdropPress = (), element = ''B''\<rparr>)]\<rparr>)\<rparr>) \<and>
   store (snd (service_requests (ModalService_mount (ModalService_mount service0 (Some 1)) (Some 2))
     [Show ''A'' config0 ''0.i'', Show ''B'' config0 ''0.j'', Hide (Some ''i'')])) 1 = ModalPanel_init"
proof -
  have n: "(1::nat) \<noteq> 2"
    by simp
  have s: "store service0 = (\<lambda>p. ModalPanel_init)"
    by (simp add: service0_def)
  have r: "panel_requests (ModalPanel_init :: (string, unit) ModalPanelState)
      [Show ''A'' config0 ''0.i'', Show ''B'' config0 ''0.j'', Hide (Some ''i'')] =
      ([''i'', ''j'', ''''],
       \<lparr>components = [(''j'', \<lparr>allowBackdrop = True, onBackdropPress = (), element = ''B''\<rparr>)]\<rparr>)"
    by (simp add: ModalPanel_show_def ModalPanel_hide_def ModalPanel_init_def config0_def
        generateUniqueComponentKey_def map_delete_def Let_def)
  note t = mount_last_writer_wins [OF n, of service0 "''A''" config0 "''0.i''"
      "[Show ''A'' config0 ''0.i'', Show ''B'' config0 ''0.j'', Hide (Some ''i'')]",
      unfolded s r fst_conv snd_conv]
  show ?thesis
    using n t by (simp add: s del: service_requests.simps panel_requests.simps)
qed

text \<open>
  What holds of the map of the registry whatever keys are drawn. The keys of the map
  are distinct, which every \<^verbatim>\<open>show\<close> and every \<^verbatim>\<open>hide\<close>, and so every run of them,
  preserves. A \<^verbatim>\<open>show\<close> whose key is new puts its record last, and one whose key the map
  holds already leaves the order of the keys as it is; a \<^verbatim>\<open>hide\<close> takes one key out and
  keeps the order of the others; \<^verbatim>\<open>render\<close> gives one resolver per record, in the order
  of the map, numbered from 0.
\<close>

lemma keys_unique_and_ordered:
  assumes "distinct (map_keys (components s))"
  shows "distinct (map_keys (components (snd (ModalPanel_show s el config rnd)))) \<and>
    distinct (map_keys (components (snd (ModalPanel_hide s x)))) \<and>
    distinct (map_keys (components (snd (panel_requests s rs)))) \<and>
    (generateUniqueComponentKey rnd \<notin> set (map_keys (components s)) \<longrightarrow>
      components (snd (ModalPanel_show s el config rnd)) =
        components s @
          [(generateUniqueComponentKey rnd,
            \<lparr>allowBackdrop = allowBackdrop config, onBackdropPress = onBackdropPress config,
             element = el\<rparr>)]) \<and>
    map_keys (components (snd (ModalPanel_show s el config rnd))) =
      (if generateUniqueComponentKey rnd \<in> set (map_keys (components s))
       then map_keys (components s)
       else map_keys (components s) @ [generateUniqueComponentKey rnd]) \<and>
    map_keys (components (snd (ModalPanel_hide s x))) =
      filter (\<lambda>k. Some k \<noteq> x) (map_keys (components s)) \<and>
    map resolverChildren (ModalPanel_render s) = map element (map_values (components s)) \<and>
    map resolverKey (ModalPanel_render s) = [0..<length (components s)]"
proof -
  have "distinct (map_keys (components (snd (ModalPanel_show s el config rnd))))"
    using assms by (simp add: components_show distinct_map_set)
  moreover have "distinct (map_keys (components (snd (ModalPanel_hide s x))))"
    using assms by (simp add: components_hide distinct_map_delete)
  moreover have "distinct (map_keys (components (snd (panel_requests s rs))))"
    using assms by (rule distinct_panel_requests)
  moreover have "generateUniqueComponentKey rnd \<notin> set (map_keys (components s)) \<longrightarrow>
      components (snd (ModalPanel_show s el config rnd)) =
        components s @
          [(generateUniqueComponentKey rnd,
            \<lparr>allowBackdrop = allowBackdrop config, onBackdropPress = onBackdropPress config,
             element = el\<rparr>)]"
    by (simp add: components_show map_set_fresh)
  moreover have "map_keys (components (snd (ModalPanel_show s el config rnd))) =
      (if generateUniqueComponentKey rnd \<in> set (map_keys (components s))
       then map_keys (components s)
       else map_keys (components s) @ [generateUniqueComponentKey rnd])"
    by (simp only: components_show map_keys_map_set)
  moreover have "map_keys (components (snd (ModalPanel_hide s x))) =
      filter (\<lambda>k. Some k \<noteq> x) (map_keys (components s))"
    by (simp add: components_hide map_keys_map_delete)
  ultimately show ?thesis
    using render_children [of s] render_keys [of s] by blast
qed

lemma keys_unique_and_ordered_example:
  "distinct (map_keys (components panel0)) \<and>
   ''j'' \<notin> set (map_keys (components panel0)) \<and>
   map_keys (components (snd (ModalPanel_show panel0 ''B'' config0 ''0.j''))) = [''i'', ''j''] \<and>
   distinct (map_keys (components (snd (ModalPanel_show panel0 ''B'' config0 ''0.j'')))) \<and>
   map resolverChildren (ModalPanel_render (snd (ModalPanel_show panel0 ''B'' config0 ''0.j''))) =
     [''A'', ''B''] \<and>
   map resolverKey (ModalPanel_render (snd (ModalPanel_show panel0 ''B'' config0 ''0.j''))) = [0, 1] \<and>
   map_keys (components (snd (ModalPanel_hide (snd (ModalPanel_show panel0 ''B'' config0 ''0.j''))
     (Some ''i'')))) = [''j'']"
proof -
  define s1 where "s1 = snd (ModalPanel_show panel0 ''B'' config0 ''0.j'')"
  have d: "distinct (map_keys (components panel0))"
    by (simp add: panel0_eq map_keys_def)
  have f: "''j'' \<notin> set (map_keys (components panel0))"
    by (simp add: panel0_eq map_keys_def)
  have k: "generateUniqueComponentKey ''0.j'' = ''j''"
    by (simp add: generateUniqueComponentKey_def)
  note step = keys_unique_and_ordered
    [OF d, of "''B''" config0 "''0.j''", folded s1_def, unfolded k]
  have d1: "distinct (map_keys (components s1))"
    using step by blast
  have c1: "components s1 =
      [(''i'', \<lparr>allowBackdrop = True, onBackdropPress = (), element = ''A''\<rparr>),
       (''j'', \<lparr>allowBackdrop = True, onBackdropPress = (), element = ''B''\<rparr>)]"
    using step f by (simp add: panel0_eq config0_def)
  note rest = keys_unique_and_ordered [OF d1, of _ _ _ "Some ''i''"]
  have "map_keys (components s1) = [''i'', ''j'']"
    by (simp add: c1 map_keys_def)
  moreover have "map resolverChildren (ModalPanel_render s1) = [''A'', ''B'']"
    using rest by (simp add: c1 map_values_def)
  moreover have "map resolverKey (ModalPanel_render s1) = [0, 1]"
    using rest by (simp add: c1)
  moreover have "map_keys (components (snd (ModalPanel_hide s1 (Some ''i'')))) = [''j'']"
    using rest by (simp add: c1 map_keys_def)
  ultimately show ?thesis
    using d f d1 unfolding s1_def by blast
qed

text \<open>
  Claim C8. The map of the registry is claimed to keep the overlay records in the order
  of their insertion and the panel to render them in that order, a later one over an
  earlier one, with all keys distinct at all times. The keys are distinct at all times
  (\<open>keys_unique_and_ordered\<close>), but the order fails where \<^verbatim>\<open>show\<close> draws a key that the map
  holds, the defect of claim C1: \<^verbatim>\<open>Map.set\<close> then puts the new record where the old one
  stood. With A shown under \<^verbatim>\<open>"i"\<close>, then B under \<^verbatim>\<open>"j"\<close>, then C under \<^verbatim>\<open>"i"\<close> again, the
  panel renders C first and B over it, although C was shown last, and A is gone.
\<close>

theorem colliding_show_is_rendered_under_earlier:
  "fst (panel_requests panel0 [Show ''B'' config0 ''0.j'', Show ''C'' config0 ''0.i'']) =
     [''j'', ''i''] \<and>
   map_keys (components (snd (panel_requests panel0
     [Show ''B'' config0 ''0.j'', Show ''C'' config0 ''0.i'']))) = [''i'', ''j''] \<and>
   map resolverChildren (ModalPanel_render (snd (panel_requests panel0
     [Show ''B'' config0 ''0.j'', Show ''C'' config0 ''0.i'']))) = [''C'', ''B'']"
  by (simp add: panel0_eq ModalPanel_show_def config0_def generateUniqueComponentKey_def
      map_keys_def map_values_def ModalPanel_render_def areThereAnyComponents_def
      renderModals_def renderModal_def Let_def)

text \<open>
  Claim C9. \<^verbatim>\<open>unmount\<close> clears the binding whichever panel is torn down. After P1 and
  then P2 have mounted, the teardown of P1 leaves the field \<^verbatim>\<open>null\<close> although P2 has not
  been torn down: every \<^verbatim>\<open>show\<close> and \<^verbatim>\<open>hide\<close> that follows returns \<^verbatim>\<open>undefined\<close> and changes
  nothing, the state of P2 included, until a panel is mounted again, after which \<^verbatim>\<open>show\<close>
  returns an identifier.
\<close>

theorem unmount_clears_any_binding:
  "componentWillUnmount p1 (componentDidMount p2 (componentDidMount p1 w)) =
     ModalService_unmount (ModalService_mount (ModalService_mount w (Some p1)) (Some p2)) \<and>
   componentWillUnmount p1 (componentDidMount p2 (componentDidMount p1 w)) =
     \<lparr>panel = None, store = store w\<rparr> \<and>
   service_requests (componentWillUnmount p1 (componentDidMount p2 (componentDidMount p1 w))) rs =
     (replicate (length rs) None, \<lparr>panel = None, store = store w\<rparr>) \<and>
   ModalService_show (componentWillUnmount p1 (componentDidMount p2 (componentDidMount p1 w)))
     el config rnd = (None, \<lparr>panel = None, store = store w\<rparr>) \<and>
   ModalService_hide (componentWillUnmount p1 (componentDidMount p2 (componentDidMount p1 w)))
     identifier = (None, \<lparr>panel = None, store = store w\<rparr>) \<and>
   fst (ModalService_show
     (ModalService_mount
       (componentWillUnmount p1 (componentDidMount p2 (componentDidMount p1 w))) (Some p3))
     el config rnd) = Some (generateUniqueComponentKey rnd)"
proof -
  define w' where "w' = componentWillUnmount p1 (componentDidMount p2 (componentDidMount p1 w))"
  have w': "w' = \<lparr>panel = None, store = store w\<rparr>"
    by (simp add: w'_def componentWillUnmount_def componentDidMount_def ModalService_mount_def
        ModalService_unmount_def)
  have m: "w' = ModalService_unmount (ModalService_mount (ModalService_mount w (Some p1)) (Some p2))"
    by (simp add: w'_def componentWillUnmount_def componentDidMount_def)
  have n: "panel w' = None"
    by (simp add: w')
  have run: "service_requests w' rs = (replicate (length rs) None, w')"
    using n by (rule service_requests_unmounted)
  have sh: "ModalService_show w' el config rnd = (None, w')"
    using n by (simp add: ModalService_show_def)
  have hi: "ModalService_hide w' identifier = (None, w')"
    using n by (simp add: ModalService_hide_def)
  have again: "fst (ModalService_show (ModalService_mount w' (Some p3)) el config rnd) =
      Some (generateUniqueComponentKey rnd)"
    using ModalService_show_mounted [of "ModalService_mount w' (Some p3)" p3 el config rnd]
    by (simp add: ModalService_mount_def fst_show)
  show ?thesis
    unfolding w'_def [symmetric] using m run sh hi again by (simp add: w')
qed

section \<open>Properties of the popover\<close>

lemma placement_of_primary_secondary: "placement_of (primary q) (secondary q) = q"
  by (cases q) simp_all

lemma opposite_opposite: "opposite (opposite s) = s"
  by (cases s) simp_all

lemma primary_placement_of: "primary (placement_of s a) = s"
  by (cases s; cases a) simp_all

lemma secondary_placement_of: "secondary (placement_of s a) = a"
  by (cases s; cases a) simp_all

lemma set_placements: "set placements = UNIV"
proof -
  have "q \<in> set placements" for q
    by (cases q) (simp_all add: placements_def)
  then show ?thesis by auto
qed

lemma parse_unrecognized:
  "raw \<notin> set (map rawValue placements) \<Longrightarrow> parse (Inl raw) fallback = fallback"
proof -
  assume "raw \<notin> set (map rawValue placements)"
  then have "find (\<lambda>p. rawValue p = raw) placements = None"
    by (auto simp: find_None_iff)
  then show ?thesis by simp
qed

lemma parse_bottom: "parse (Inl ''bottom'') fallback = BOTTOM"
  by (simp add: placements_def)

text \<open>
  Claim C6. For each of the twelve placements the reverse of the reverse is the
  placement itself. The reverse has the opposite primary side and the same secondary
  alignment, and it is the only placement that has both.
\<close>

theorem reverse_reverse:
  "reverse (reverse p) = p \<and>
   primary (reverse p) = opposite (primary p) \<and>
   secondary (reverse p) = secondary p \<and>
   (\<exists>!q. primary q = opposite (primary p) \<and> secondary q = secondary p) \<and>
   p \<in> set placements \<and> length placements = 12 \<and> distinct placements"
proof -
  have 1: "reverse (reverse p) = p"
    by (simp add: reverse_def primary_placement_of secondary_placement_of opposite_opposite
        placement_of_primary_secondary)
  have 2: "primary (reverse p) = opposite (primary p)"
    by (simp add: reverse_def primary_placement_of)
  have 3: "secondary (reverse p) = secondary p"
    by (simp add: reverse_def secondary_placement_of)
  have 4: "\<exists>!q. primary q = opposite (primary p) \<and> secondary q = secondary p"
  proof (rule ex1I [of _ "reverse p"])
    show "primary (reverse p) = opposite (primary p) \<and> secondary (reverse p) = secondary p"
      using 2 3 by simp
  next
    fix q
    assume q: "primary q = opposite (primary p) \<and> secondary q = secondary p"
    have "q = placement_of (primary q) (secondary q)"
      by (simp add: placement_of_primary_secondary)
    also have "\<dots> = reverse p"
      using q by (simp add: reverse_def)
    finally show "q = reverse p" .
  qed
  have 5: "p \<in> set placements"
    by (simp add: set_placements)
  have 6: "length placements = 12 \<and> distinct placements"
    by (simp add: placements_def)
  from 1 2 3 4 5 6 show ?thesis
    by blast
qed

text \<open>
  Claim C7. A placement string that is not the raw value of a placement, such as
  \<^verbatim>\<open>"diagonal"\<close>, is parsed to the default placement \<^verbatim>\<open>PopoverPlacements.BOTTOM\<close>. Nothing is
  thrown, and \<^verbatim>\<open>getPopoverFrame\<close> gives the frame that it gives for \<^verbatim>\<open>"bottom"\<close> and for the
  default placement itself, whatever the frame function and the offsets are.
\<close>

theorem unrecognized_placement_is_default:
  assumes "raw \<notin> set (map rawValue placements)"
  shows "parse (Inl raw) PLACEMENT_DEFAULT = BOTTOM \<and>
    getPopoverFrame frame find_offsets this layout (Inl raw) =
      getPopoverFrame frame find_offsets this layout (Inl ''bottom'') \<and>
    getPopoverFrame frame find_offsets this layout (Inl raw) =
      getPopoverFrame frame find_offsets this layout (Inr PLACEMENT_DEFAULT)"
  using assms
  by (simp add: getPopoverFrame_def parse_unrecognized parse_bottom PLACEMENT_DEFAULT_def
      del: parse.simps(1))

theorem unrecognized_placement_is_default_witness:
  "''diagonal'' \<notin> set (map rawValue placements) \<and>
   parse (Inl ''diagonal'') PLACEMENT_DEFAULT = BOTTOM \<and>
   getPopoverFrame spec_frame (\<lambda>st. ()) popover0 layout0 (Inl ''diagonal'') =
     \<lparr>origin = \<lparr>point_x = 30, point_y = 60\<rparr>, size = \<lparr>size_width = 60, size_height = 30\<rparr>\<rparr>"
proof -
  have d: "''diagonal'' \<notin> set (map rawValue placements)"
    by (simp add: placements_def)
  have b: "getPopoverFrame spec_frame (\<lambda>st. ()) popover0 layout0 (Inl ''bottom'') =
      \<lparr>origin = \<lparr>point_x = 30, point_y = 60\<rparr>, size = \<lparr>size_width = 60, size_height = 30\<rparr>\<rparr>"
    by (simp add: getPopoverFrame_def placements_def PLACEMENT_DEFAULT_def spec_frame_def
        align_along_def layout0_def TAG_CHILD_def TAG_CONTENT_def Let_def)
  show ?thesis
    using d b unrecognized_placement_is_default [OF d, of spec_frame "\<lambda>st. ()" popover0 layout0]
    by (simp del: parse.simps(1))
qed

lemma setVisible_True:
  "setVisible True this w =
     (this\<lparr>props := (props this)\<lparr>visible := True\<rparr>,
           popoverElement :=
             Some (renderPopoverElement (this\<lparr>props := (props this)\<lparr>visible := True\<rparr>\<rparr>)
               (content (props this)))\<rparr>,
      w)"
  by (simp add: setVisible_def receiveProps_def PopoverComponent_render_def
      componentDidUpdate_def)









text \<open>
  The other path, for comparison: the measuring result of a popover that is still
  visible presents the clone of the element at the frame computed, under the identifier
  that \<^verbatim>\<open>show\<close> returns.
\<close>

lemma measured_request_registers:
  "(case setVisible True popover0 service1 of
      (this1, w1) \<Rightarrow>
        (case onMeasure spec_frame (\<lambda>st. ()) this1 w1 layout0 ''0.i'' of
           Inl e \<Rightarrow> False
         | Inr (this2, w2) \<Rightarrow>
             popoverModalId this2 = Some ''i'' \<and>
             components (store w2 1) =
               [(''i'',
                 \<lparr>allowBackdrop = True, onBackdropPress = (),
                  element =
                    \<lparr>element_tag = 1,
                     element_style =
                       \<lparr>style_position = None, style_left = Some 30, style_top = Some 60,
                        style_opacity = Some 1\<rparr>,
                     view_placement = ''top'', view_children = ''hello''\<rparr>\<rparr>)]))"
  by (simp add: setVisible_True popover0_def service1_def PopoverComponent_init_def
      onMeasure_def showPopoverModal_def getPopoverFrame_def cloneElement_def
      renderPopoverElement_def reverse_def placements_def PLACEMENT_DEFAULT_def spec_frame_def
      align_along_def layout0_def TAG_CHILD_def TAG_CONTENT_def ModalService_show_def
      ModalPanel_show_def ModalPanel_init_def generateUniqueComponentKey_def Let_def)

section \<open>Properties of the view pager\<close>

text \<open>
  Claim C10. \<^verbatim>\<open>onPanResponderRelease\<close> scrolls to the adjacent page, the previous one when
  the displacement \<^verbatim>\<open>dx\<close> is positive and the next one otherwise, exactly when the absolute
  velocity \<^verbatim>\<open>vx\<close> is at least 0.5 or the absolute displacement is at least half of the
  content width; otherwise it scrolls back to the selected page. The scroll is animated.
\<close>

theorem release_scrolls_to_adjacent_page:
  "(\<bar>vx state\<bar> \<ge> 0.5 \<or> \<bar>dx state\<bar> \<ge> 0.5 * contentWidth this \<longrightarrow>
      scroll_index (onPanResponderRelease this state) =
        (if dx state > 0 then selectedIndex this - 1 else selectedIndex this + 1)) \<and>
   (\<not> (\<bar>vx state\<bar> \<ge> 0.5 \<or> \<bar>dx state\<bar> \<ge> 0.5 * contentWidth this) \<longrightarrow>
      scroll_index (onPanResponderRelease this state) = selectedIndex this) \<and>
   (scroll_index (onPanResponderRelease this state) \<noteq> selectedIndex this \<longleftrightarrow>
      \<bar>vx state\<bar> \<ge> 0.5 \<or> \<bar>dx state\<bar> \<ge> 0.5 * contentWidth this) \<and>
   scroll_animated (onPanResponderRelease this state) = Some True \<and>
   scrollToIndex this (onPanResponderRelease this state) =
     \<lparr>toValue = - (contentWidth this * scroll_index (onPanResponderRelease this state)),
      duration = 300\<rparr>"
  by (simp add: onPanResponderRelease_def scrollToIndex_def createOffsetAnimation_def Let_def)

theorem release_scrolls_to_adjacent_page_witness:
  "\<bar>vx \<lparr>dx = - 10, vx = - 0.6\<rparr>\<bar> \<ge> 0.5 \<and>
   scroll_index (onPanResponderRelease pager0 \<lparr>dx = - 10, vx = - 0.6\<rparr>) = 2 \<and>
   \<bar>dx \<lparr>dx = 150, vx = 0.1\<rparr>\<bar> \<ge> 0.5 * contentWidth pager0 \<and>
   scroll_index (onPanResponderRelease pager0 \<lparr>dx = 150, vx = 0.1\<rparr>) = 0 \<and>
   \<not> (\<bar>vx \<lparr>dx = 149, vx = 0.4\<rparr>\<bar> \<ge> 0.5 \<or> \<bar>dx \<lparr>dx = 149, vx = 0.4\<rparr>\<bar> \<ge> 0.5 * contentWidth pager0) \<and>
   scroll_index (onPanResponderRelease pager0 \<lparr>dx = 149, vx = 0.4\<rparr>) = 1"
  using release_scrolls_to_adjacent_page [of "\<lparr>dx = - 10, vx = - 0.6\<rparr>" pager0]
    release_scrolls_to_adjacent_page [of "\<lparr>dx = 150, vx = 0.1\<rparr>" pager0]
    release_scrolls_to_adjacent_page [of "\<lparr>dx = 149, vx = 0.4\<rparr>" pager0]
  by (simp add: pager0_def)

end
